theory Spec2Isabelle
  imports Complex_Main
begin

section \<open>Values and records of backend.py\<close>

text \<open>
  The values that \<^verbatim>\<open>json.load\<close> produces and \<^verbatim>\<open>json.dump\<close> accepts. A Python
  \<^verbatim>\<open>dict\<close> keeps its keys in insertion order, and the scan of
  \<^verbatim>\<open>verify_subscriber\<close> depends on that order, so a dict is an association list;
  a real dict has no key twice.
\<close>

datatype json =
    JNull
  | JBool bool
  | JInt int
  | JFloat rat
  | JStr string
  | JArr "json list"
  | JObj "(string \<times> json) list"

type_synonym Dict = "(string \<times> json) list"

text \<open>The dataclass \<^verbatim>\<open>Subscriber\<close> (lines 13-21), with the declared field types.\<close>

record Subscriber =
  email :: string
  joined_date :: string
  status :: string
  verification_token :: string
  verified :: bool
  last_updated :: string
  metadata :: Dict

text \<open>
  What lies outside the repository is a parameter: \<^verbatim>\<open>validate_email\<close> of the
  email_validator package (\<open>Inl\<close> the text of the \<^verbatim>\<open>EmailNotValidError\<close>,
  \<open>Inr\<close> the normalised address \<^verbatim>\<open>valid.email\<close>), \<^verbatim>\<open>str.lower\<close>, and
  \<^verbatim>\<open>hashlib.sha256(s.encode()).hexdigest()\<close>.
\<close>

record env =
  validate_email :: "string \<Rightarrow> string + string"
  lower :: "string \<Rightarrow> string"
  sha256_hexdigest :: "string \<Rightarrow> string"

text \<open>
  The backing file. \<open>content = None\<close>: \<^verbatim>\<open>os.path.exists\<close> is false.
  \<open>Invalid_json\<close>: the text of the file is not JSON (\<^verbatim>\<open>json.load\<close> raises).
  \<open>Json j\<close>: \<^verbatim>\<open>json.load\<close> returns \<open>j\<close>. \<open>readable\<close> and \<open>writable\<close>
  say whether \<^verbatim>\<open>open(..., "r")\<close> and \<^verbatim>\<open>open(..., "w")\<close> succeed.
\<close>

datatype file_content = Invalid_json | Json json

record backing_file =
  content :: "file_content option"
  readable :: bool
  writable :: bool

datatype exn = OSError | JSONDecodeError | AttributeError | TypeError

text \<open>
  What an operation leaves behind besides the index: a full overwrite of the file with a
  document, or a line of \<^verbatim>\<open>logging.error\<close> (its fixed prefix and the exception).
\<close>

datatype event = Wrote json | LogError string exn

text \<open>
  The object \<^verbatim>\<open>SubscriberManager\<close>: its index \<^verbatim>\<open>self.subscribers\<close>, the file
  named by \<^verbatim>\<open>self.storage_file\<close>, and the events so far, oldest first.
\<close>

record SubscriberManager =
  subscribers :: "(string \<times> Subscriber) list"
  storage_file :: backing_file
  journal :: "event list"

type_synonym response = "(string \<times> string) list \<times> nat"

section \<open>Dictionaries\<close>

definition keys :: "('k \<times> 'v) list \<Rightarrow> 'k list" where
  "keys d = map fst d"

text \<open>\<^verbatim>\<open>d[k] = v\<close>: an existing key keeps its place, a new key goes last.\<close>

fun setitem :: "('k \<times> 'v) list \<Rightarrow> 'k \<Rightarrow> 'v \<Rightarrow> ('k \<times> 'v) list" where
  "setitem [] k v = [(k, v)]"
| "setitem ((k', v') # d) k v =
     (if k' = k then (k, v) # d else (k', v') # setitem d k v)"

section \<open>Record Store: save and load\<close>

text \<open>\<^verbatim>\<open>dataclasses.asdict\<close>: the fields in declaration order.\<close>

definition asdict :: "Subscriber \<Rightarrow> Dict" where
  "asdict s =
     [(''email'', JStr (email s)),
      (''joined_date'', JStr (joined_date s)),
      (''status'', JStr (status s)),
      (''verification_token'', JStr (verification_token s)),
      (''verified'', JBool (verified s)),
      (''last_updated'', JStr (last_updated s)),
      (''metadata'', JObj (metadata s))]"

text \<open>The comprehension of line 50-53, built key by key.\<close>

fun dump_items :: "(string \<times> Subscriber) list \<Rightarrow> Dict \<Rightarrow> Dict" where
  "dump_items [] acc = acc"
| "dump_items ((em, subscriber) # rest) acc =
     dump_items rest (setitem acc em (JObj (asdict subscriber)))"

text \<open>
  \<^verbatim>\<open>save_subscribers\<close> (lines 48-57). Every value of type \<open>json\<close> can be dumped, so
  the only failure left is \<^verbatim>\<open>open\<close>; it is logged and the file stays as it was.
\<close>

definition save_subscribers :: "SubscriberManager \<Rightarrow> SubscriberManager" where
  "save_subscribers self =
     (let data = JObj (dump_items (subscribers self) [])
      in if writable (storage_file self)
         then self\<lparr>storage_file := (storage_file self)\<lparr>content := Some (Json data)\<rparr>,
                   journal := journal self @ [Wrote data]\<rparr>
         else self\<lparr>journal := journal self @ [LogError ''Error saving subscribers: '' OSError]\<rparr>)"

text \<open>
  The outcome of a step inside the \<^verbatim>\<open>try\<close> of \<^verbatim>\<open>load_subscribers\<close>.
  \<open>Untyped\<close> is an outcome of the model only: the dataclass checks no field type at
  run time, so a file whose record holds, say, a number under \<^verbatim>\<open>"email"\<close> loads in
  Python into an object that the typed record above cannot express. The model marks
  that case and says nothing about it.
\<close>

datatype 'a outcome = Raised exn | Untyped | Value 'a

definition field_names :: "string list" where
  "field_names = [''email'', ''joined_date'', ''status'', ''verification_token'',
                  ''verified'', ''last_updated'', ''metadata'']"

text \<open>
  \<^verbatim>\<open>Subscriber(**sub_data)\<close>: \<^verbatim>\<open>TypeError\<close> when \<^verbatim>\<open>sub_data\<close> is no mapping, when
  a field has no keyword or when a keyword names no field.
\<close>

definition Subscriber_init :: "json \<Rightarrow> Subscriber outcome" where
  "Subscriber_init sub_data =
     (case sub_data of
        JObj kw \<Rightarrow>
          if list_all (\<lambda>k. k \<in> set field_names) (keys kw)
             \<and> list_all (\<lambda>f. f \<in> set (keys kw)) field_names
          then (case (map_of kw ''email'', map_of kw ''joined_date'', map_of kw ''status'',
                      map_of kw ''verification_token'', map_of kw ''verified'',
                      map_of kw ''last_updated'', map_of kw ''metadata'') of
                  (Some (JStr e), Some (JStr j), Some (JStr st), Some (JStr t),
                   Some (JBool v), Some (JStr u), Some (JObj m)) \<Rightarrow>
                    Value \<lparr>email = e, joined_date = j, status = st, verification_token = t,
                           verified = v, last_updated = u, metadata = m\<rparr>
                | _ \<Rightarrow> Untyped)
          else Raised TypeError
      | _ \<Rightarrow> Raised TypeError)"

text \<open>The comprehension of lines 40-43; the first exception ends it.\<close>

fun load_items ::
  "Dict \<Rightarrow> (string \<times> Subscriber) list \<Rightarrow> (string \<times> Subscriber) list outcome" where
  "load_items [] acc = Value acc"
| "load_items ((em, sub_data) # rest) acc =
     (case Subscriber_init sub_data of
        Raised e \<Rightarrow> Raised e
      | Untyped \<Rightarrow> Untyped
      | Value s \<Rightarrow> load_items rest (setitem acc em s))"

text \<open>
  The body of the \<^verbatim>\<open>with\<close> once the file exists: \<^verbatim>\<open>open\<close>, \<^verbatim>\<open>json.load\<close>,
  \<^verbatim>\<open>data.items()\<close> (\<^verbatim>\<open>AttributeError\<close> unless the document is an object), the
  comprehension.
\<close>

definition read_file ::
  "backing_file \<Rightarrow> file_content \<Rightarrow> (string \<times> Subscriber) list outcome" where
  "read_file f c =
     (if \<not> readable f then Raised OSError
      else case c of
             Invalid_json \<Rightarrow> Raised JSONDecodeError
           | Json (JObj items) \<Rightarrow> load_items items []
           | Json _ \<Rightarrow> Raised AttributeError)"

text \<open>
  \<^verbatim>\<open>load_subscribers\<close> (lines 35-46). An absent file leaves \<^verbatim>\<open>self.subscribers\<close>
  as it is; an exception is logged and empties it. \<open>None\<close> only for \<open>Untyped\<close>.
\<close>

definition load_subscribers :: "SubscriberManager \<Rightarrow> SubscriberManager option" where
  "load_subscribers self =
     (case content (storage_file self) of
        None \<Rightarrow> Some self
      | Some c \<Rightarrow>
          (case read_file (storage_file self) c of
             Value d \<Rightarrow> Some (self\<lparr>subscribers := d\<rparr>)
           | Untyped \<Rightarrow> None
           | Raised e \<Rightarrow>
               Some (self\<lparr>subscribers := [],
                          journal := journal self
                            @ [LogError ''Error loading subscribers: '' e]\<rparr>)))"

text \<open>\<^verbatim>\<open>__init__\<close> (lines 30-33): the empty index, then the load.\<close>

definition SubscriberManager_init :: "backing_file \<Rightarrow> SubscriberManager option" where
  "SubscriberManager_init f =
     load_subscribers \<lparr>subscribers = [], storage_file = f, journal = []\<rparr>"

section \<open>Subscriber Manager: register, verify, stats\<close>

text \<open>
  \<^verbatim>\<open>add_subscriber\<close> (lines 59-88). \<^verbatim>\<open>datetime.now().isoformat()\<close> is read three
  times, at lines 73, 78 and 82: \<open>now1\<close>, \<open>now2\<close> and \<open>now3\<close> are those readings.
  \<^verbatim>\<open>metadata or {}\<close> replaces \<^verbatim>\<open>None\<close> and the empty dict by a new empty dict.
\<close>

definition add_subscriber ::
  "env \<Rightarrow> SubscriberManager \<Rightarrow> string \<Rightarrow> Dict option \<Rightarrow> string \<Rightarrow> string \<Rightarrow> string
     \<Rightarrow> response \<times> SubscriberManager" where
  "add_subscriber E self email0 metadata0 now1 now2 now3 =
     (case validate_email E email0 of
        Inl e \<Rightarrow> (([(''error'', e)], 400), self)
      | Inr email1 \<Rightarrow>
          if lower E email1 \<in> set (keys (subscribers self))
          then (([(''error'', ''Email already exists'')], 409), self)
          else
            let token = sha256_hexdigest E (email1 @ now1);
                subscriber =
                  \<lparr>email = lower E email1,
                   joined_date = now2,
                   status = ''pending'',
                   verification_token = token,
                   verified = False,
                   last_updated = now3,
                   metadata = (case metadata0 of
                                 None \<Rightarrow> []
                               | Some m \<Rightarrow> if m = [] then [] else m)\<rparr>
            in (([(''message'', ''Subscriber added successfully'')], 201),
                save_subscribers
                  (self\<lparr>subscribers :=
                          setitem (subscribers self) (lower E email1) subscriber\<rparr>)))"

text \<open>
  The loop of \<^verbatim>\<open>verify_subscriber\<close> (lines 91-97): the first record whose token
  matches is changed in place and the loop is left; \<open>None\<close> when the loop runs out.
\<close>

fun verify_scan ::
  "(string \<times> Subscriber) list \<Rightarrow> string \<Rightarrow> string \<Rightarrow> (string \<times> Subscriber) list option" where
  "verify_scan [] token now = None"
| "verify_scan ((em, subscriber) # rest) token now =
     (if verification_token subscriber = token
      then Some ((em, subscriber\<lparr>verified := True, status := ''active'',
                                    last_updated := now\<rparr>) # rest)
      else map_option ((#) (em, subscriber)) (verify_scan rest token now))"

definition verify_subscriber ::
  "SubscriberManager \<Rightarrow> string \<Rightarrow> string \<Rightarrow> response \<times> SubscriberManager" where
  "verify_subscriber self token now =
     (case verify_scan (subscribers self) token now of
        Some d \<Rightarrow> (([(''message'', ''Email verified successfully'')], 200),
                   save_subscribers (self\<lparr>subscribers := d\<rparr>))
      | None \<Rightarrow> (([(''error'', ''Invalid verification token'')], 400), self))"

text \<open>
  \<^verbatim>\<open>get_subscriber_stats\<close> (lines 100-109): \<^verbatim>\<open>len\<close>, the two sums of ones over
  \<^verbatim>\<open>self.subscribers.values()\<close>, and the returned dict, key by key. \<open>now\<close> is the
  reading of the clock at line 108. The manager is returned as it was received.
\<close>

definition get_subscriber_stats :: "SubscriberManager \<Rightarrow> string \<Rightarrow> Dict \<times> SubscriberManager" where
  "get_subscriber_stats self now =
     (let vals = map snd (subscribers self);
          total = int (length (subscribers self));
          active = sum_list (map (\<lambda>s. 1) (filter (\<lambda>s. status s = ''active'') vals));
          unverified = sum_list (map (\<lambda>s. 1) (filter (\<lambda>s. \<not> verified s) vals))
      in ([(''total'', JInt total),
           (''active'', JInt active),
           (''unverified'', JInt unverified),
           (''last_updated'', JStr now)], self))"

section \<open>Sequences of calls\<close>

text \<open>
  A call of one of the two mutating operations with its arguments and the clock readings
  it consumes, and the manager after a sequence of such calls.
\<close>

datatype call =
    Register string "Dict option" string string string
  | Verify string string

fun apply_call :: "env \<Rightarrow> SubscriberManager \<Rightarrow> call \<Rightarrow> SubscriberManager" where
  "apply_call E self (Register email0 metadata0 now1 now2 now3) =
     snd (add_subscriber E self email0 metadata0 now1 now2 now3)"
| "apply_call E self (Verify token now) = snd (verify_subscriber self token now)"

fun run :: "env \<Rightarrow> SubscriberManager \<Rightarrow> call list \<Rightarrow> SubscriberManager" where
  "run E self [] = self"
| "run E self (c # cs) = run E (apply_call E self c) cs"

text \<open>The two implications of the data model, for one record and for an index.\<close>

definition lifecycle_ok :: "Subscriber \<Rightarrow> bool" where
  "lifecycle_ok s =
     ((verified s \<longrightarrow> status s = ''active'') \<and> (status s = ''pending'' \<longrightarrow> \<not> verified s))"

definition lifecycle_invariant :: "(string \<times> Subscriber) list \<Rightarrow> bool" where
  "lifecycle_invariant d = list_all (\<lambda>x. lifecycle_ok (snd x)) d"

section \<open>Concrete inputs\<close>

text \<open>
  An instance of the parameters, to evaluate the operations on concrete inputs: a
  validator that asks for an at-sign and returns the address as it is, lower-casing of
  the ASCII letters, and a tagged copy of the text in place of the digest.
\<close>

definition ascii_lower :: "string \<Rightarrow> string" where
  "ascii_lower s =
     map (\<lambda>c. if 65 \<le> (of_char c :: nat) \<and> (of_char c :: nat) \<le> 90
              then char_of (of_char c + 32 :: nat) else c) s"

definition demo_env :: env where
  "demo_env =
     \<lparr>validate_email = (\<lambda>e. if CHR ''@'' \<in> set e then Inr e
                             else Inl ''The email address is not valid.''),
      lower = ascii_lower,
      sha256_hexdigest = (\<lambda>s. ''sha256:'' @ s)\<rparr>"

definition disk_ok :: backing_file where
  "disk_ok = \<lparr>content = None, readable = True, writable = True\<rparr>"

definition empty_manager :: SubscriberManager where
  "empty_manager = \<lparr>subscribers = [], storage_file = disk_ok, journal = []\<rparr>"

definition ann :: Subscriber where
  "ann = \<lparr>email = ''ann@example.com'', joined_date = ''2024-01-01T09:00:00.000001'',
          status = ''pending'', verification_token = ''tok-1'', verified = False,
          last_updated = ''2024-01-01T09:00:00.000002'', metadata = []\<rparr>"

definition bob :: Subscriber where
  "bob = \<lparr>email = ''bob@example.com'', joined_date = ''2024-01-02T10:00:00.000001'',
          status = ''pending'', verification_token = ''tok-1'', verified = False,
          last_updated = ''2024-01-02T10:00:00.000001'',
          metadata = [(''source'', JStr ''landing'')]\<rparr>"

definition two_subscribers :: SubscriberManager where
  "two_subscribers =
     \<lparr>subscribers = [(''ann@example.com'', ann), (''bob@example.com'', bob)],
      storage_file = disk_ok, journal = []\<rparr>"

section \<open>Properties of the dictionaries and of the scan\<close>

lemma setitem_fresh: "k \<notin> set (keys d) \<Longrightarrow> setitem d k v = d @ [(k, v)]"
  by (induction d) (auto simp: keys_def)

lemma keys_append: "keys (a @ b) = keys a @ keys b"
  by (simp add: keys_def)




lemma verify_scan_None:
  "(verify_scan d token now = None) = (\<forall>x \<in> set d. verification_token (snd x) \<noteq> token)"
proof (induction d)
  case Nil
  then show ?case by simp
next
  case (Cons a d)
  obtain k s where a: "a = (k, s)" by (cases a)
  show ?case using Cons.IH by (simp add: a)
qed

lemma verify_scan_first:
  "\<forall>x \<in> set pre. verification_token (snd x) \<noteq> token \<Longrightarrow> verification_token s = token \<Longrightarrow>
   verify_scan (pre @ (k, s) # post) token now =
     Some (pre @ (k, s\<lparr>verified := True, status := ''active'', last_updated := now\<rparr>) # post)"
  by (induction pre) auto

lemma first_match_split:
  "\<exists>x \<in> set d. verification_token (snd x) = token \<Longrightarrow>
   \<exists>pre k s post. d = pre @ (k, s) # post \<and> (\<forall>x \<in> set pre. verification_token (snd x) \<noteq> token)
      \<and> verification_token s = token"
proof (induction d)
  case Nil
  then show ?case by simp
next
  case (Cons a d)
  show ?case
  proof (cases "verification_token (snd a) = token")
    case True
    then have "a # d = [] @ (fst a, snd a) # d \<and> (\<forall>x \<in> set []. verification_token (snd x) \<noteq> token)
      \<and> verification_token (snd a) = token" by simp
    then show ?thesis by blast
  next
    case False
    with Cons.prems have "\<exists>x \<in> set d. verification_token (snd x) = token" by auto
    from Cons.IH [OF this] obtain pre k s post where
      "d = pre @ (k, s) # post" "\<forall>x \<in> set pre. verification_token (snd x) \<noteq> token"
      "verification_token s = token" by blast
    with False have "a # d = (a # pre) @ (k, s) # post \<and>
      (\<forall>x \<in> set (a # pre). verification_token (snd x) \<noteq> token) \<and> verification_token s = token"
      by simp
    then show ?thesis by blast
  qed
qed

section \<open>Properties of the operations\<close>

lemma subscribers_save [simp]: "subscribers (save_subscribers self) = subscribers self"
  by (simp add: save_subscribers_def Let_def)

lemma journal_save:
  "journal (save_subscribers self) =
     journal self @ [if writable (storage_file self)
                     then Wrote (JObj (dump_items (subscribers self) []))
                     else LogError ''Error saving subscribers: '' OSError]"
  by (simp add: save_subscribers_def Let_def)

lemma content_save:
  "writable (storage_file self) \<Longrightarrow>
   content (storage_file (save_subscribers self)) =
     Some (Json (JObj (dump_items (subscribers self) [])))"
  by (simp add: save_subscribers_def Let_def)

subsection \<open>Verification\<close>

text \<open>
  Claim C4. When the token equals the \<^verbatim>\<open>verification_token\<close> of no record of the
  index, \<^verbatim>\<open>verify_subscriber\<close> answers \<^verbatim>\<open>{"error": "Invalid verification token"}\<close>
  with status 400 (the spec's InvalidTokenError) and the manager is the one it received:
  the same index, the same file, and no new event, so nothing was saved.
\<close>

theorem verify_subscriber_unknown_token:
  assumes "\<forall>x \<in> set (subscribers self). verification_token (snd x) \<noteq> token"
  shows "verify_subscriber self token now =
           (([(''error'', ''Invalid verification token'')], 400), self)"
proof -
  from assms have "verify_scan (subscribers self) token now = None"
    by (simp add: verify_scan_None)
  then show ?thesis by (simp add: verify_subscriber_def)
qed

theorem verify_subscriber_unknown_token_witness:
  "map (\<lambda>x. verification_token (snd x)) (subscribers two_subscribers) = [''tok-1'', ''tok-1'']
   \<and> verify_subscriber two_subscribers ''tok-9'' ''2024-02-01T00:00:00'' =
       (([(''error'', ''Invalid verification token'')], 400), two_subscribers)"
proof -
  have h: "\<forall>x \<in> set (subscribers two_subscribers). verification_token (snd x) \<noteq> ''tok-9''"
    by (simp add: two_subscribers_def ann_def bob_def)
  have "map (\<lambda>x. verification_token (snd x)) (subscribers two_subscribers) = [''tok-1'', ''tok-1'']"
    by (simp add: two_subscribers_def ann_def bob_def)
  then show ?thesis
    using verify_subscriber_unknown_token [OF h, of "''2024-02-01T00:00:00''"] by simp
qed

lemma verify_subscriber_split:
  assumes "subscribers self = pre @ (k, s) # post"
      and "\<forall>x \<in> set pre. verification_token (snd x) \<noteq> token"
      and "verification_token s = token"
  shows "verify_subscriber self token now =
           (([(''message'', ''Email verified successfully'')], 200),
            save_subscribers (self\<lparr>subscribers :=
              pre @ (k, s\<lparr>verified := True, status := ''active'', last_updated := now\<rparr>) # post\<rparr>))"
  using assms by (simp add: verify_subscriber_def verify_scan_first)

text \<open>
  Claim C10. Let position \<open>i\<close> hold the first record, in the order of the index, whose
  token is the one submitted. Then \<^verbatim>\<open>verify_subscriber\<close> changes the record at
  position \<open>i\<close> and no other: the index keeps its length, and every other position,
  later records with the same token among them, holds what it held before.
\<close>

theorem verify_subscriber_first_match_only:
  assumes i: "i < length (subscribers self)"
      and hit: "verification_token (snd (subscribers self ! i)) = token"
      and first: "\<forall>j<i. verification_token (snd (subscribers self ! j)) \<noteq> token"
  shows "length (subscribers (snd (verify_subscriber self token now))) = length (subscribers self)
       \<and> subscribers (snd (verify_subscriber self token now)) ! i =
           (fst (subscribers self ! i),
            (snd (subscribers self ! i))\<lparr>verified := True, status := ''active'',
                                          last_updated := now\<rparr>)
       \<and> (\<forall>j < length (subscribers self). j \<noteq> i \<longrightarrow>
             subscribers (snd (verify_subscriber self token now)) ! j = subscribers self ! j)"
proof -
  let ?d = "subscribers self"
  let ?s' = "(snd (?d ! i))\<lparr>verified := True, status := ''active'', last_updated := now\<rparr>"
  have split: "?d = take i ?d @ (fst (?d ! i), snd (?d ! i)) # drop (Suc i) ?d"
    using i by (simp add: id_take_nth_drop)
  have pre: "\<forall>x \<in> set (take i ?d). verification_token (snd x) \<noteq> token"
  proof
    fix x assume "x \<in> set (take i ?d)"
    then obtain j where "j < length (take i ?d)" "take i ?d ! j = x"
      by (auto simp: in_set_conv_nth)
    then have "j < i" "?d ! j = x" by simp_all
    with first show "verification_token (snd x) \<noteq> token" by auto
  qed
  have res: "subscribers (snd (verify_subscriber self token now)) =
               take i ?d @ (fst (?d ! i), ?s') # drop (Suc i) ?d"
    using verify_subscriber_split [OF split pre hit, of now] by simp
  have upd: "take i ?d @ (fst (?d ! i), ?s') # drop (Suc i) ?d = ?d[i := (fst (?d ! i), ?s')]"
    using i by (simp add: upd_conv_take_nth_drop)
  show ?thesis
    unfolding res upd using i by simp
qed

theorem verify_subscriber_first_match_only_witness:
  "subscribers (snd (verify_subscriber two_subscribers ''tok-1'' ''2024-02-01T00:00:00'')) ! 1
     = (''bob@example.com'', bob)
   \<and> verified (snd (subscribers
        (snd (verify_subscriber two_subscribers ''tok-1'' ''2024-02-01T00:00:00'')) ! 0))
   \<and> verification_token bob = verification_token ann"
proof -
  have i: "0 < length (subscribers two_subscribers)"
    by (simp add: two_subscribers_def)
  have hit: "verification_token (snd (subscribers two_subscribers ! 0)) = ''tok-1''"
    by (simp add: two_subscribers_def ann_def)
  have first: "\<forall>j<0. verification_token (snd (subscribers two_subscribers ! j)) \<noteq> ''tok-1''"
    by simp
  have len: "length (subscribers two_subscribers) = 2"
    by (simp add: two_subscribers_def)
  have b: "subscribers two_subscribers ! 1 = (''bob@example.com'', bob)"
    by (simp add: two_subscribers_def)
  from verify_subscriber_first_match_only [OF i hit first, of "''2024-02-01T00:00:00''"]
  show ?thesis
    using len b by (simp add: ann_def bob_def)
qed

lemma sum_list_ones: "sum_list (map (\<lambda>s. 1::int) xs) = int (length xs)"
  by (induction xs) simp_all

lemma stats_total:
  "map_of (fst (get_subscriber_stats self now)) ''total'' =
     Some (JInt (int (length (subscribers self))))"
  by (simp add: get_subscriber_stats_def Let_def)

lemma stats_active:
  "map_of (fst (get_subscriber_stats self now)) ''active'' =
     Some (JInt (int (length (filter (\<lambda>x. status (snd x) = ''active'') (subscribers self)))))"
  by (simp add: get_subscriber_stats_def Let_def sum_list_ones filter_map comp_def)

lemma stats_unverified:
  "map_of (fst (get_subscriber_stats self now)) ''unverified'' =
     Some (JInt (int (length (filter (\<lambda>x. \<not> verified (snd x)) (subscribers self)))))"
  by (simp add: get_subscriber_stats_def Let_def sum_list_ones filter_map comp_def)

text \<open>
  Claim C3. When some record of the index carries the submitted token,
  \<^verbatim>\<open>verify_subscriber\<close> answers \<^verbatim>\<open>{"message": "Email verified successfully"}\<close>
  with status 200. The matched record is the first one with that token (the only one
  when tokens are unique): it gets \<^verbatim>\<open>verified = True\<close>, \<^verbatim>\<open>status = "active"\<close> and
  the clock reading \<open>now\<close> as \<^verbatim>\<open>last_updated\<close>; then \<^verbatim>\<open>save_subscribers\<close> runs
  on the whole updated index, and a writable file holds that index afterwards. When the
  matched record was pending and unverified, the report of \<^verbatim>\<open>get_subscriber_stats\<close>
  taken after the call has \<^verbatim>\<open>active\<close> one higher and \<^verbatim>\<open>unverified\<close> one lower
  than the report taken before.
\<close>

theorem verify_subscriber_matching_token:
  assumes "x \<in> set (subscribers self)" and "verification_token (snd x) = token"
  shows "\<exists>pre k s post.
           subscribers self = pre @ (k, s) # post
         \<and> (\<forall>y \<in> set pre. verification_token (snd y) \<noteq> token)
         \<and> verification_token s = token
         \<and> verify_subscriber self token now =
             (([(''message'', ''Email verified successfully'')], 200),
              save_subscribers (self\<lparr>subscribers :=
                pre @ (k, s\<lparr>verified := True, status := ''active'', last_updated := now\<rparr>) # post\<rparr>))
         \<and> (writable (storage_file self) \<longrightarrow>
              content (storage_file (snd (verify_subscriber self token now))) =
                Some (Json (JObj (dump_items
                  (pre @ (k, s\<lparr>verified := True, status := ''active'', last_updated := now\<rparr>) # post)
                  []))))
         \<and> (status s = ''pending'' \<and> \<not> verified s \<longrightarrow>
              (\<exists>a u. map_of (fst (get_subscriber_stats self before)) ''active'' = Some (JInt a)
                   \<and> map_of (fst (get_subscriber_stats (snd (verify_subscriber self token now)) after))
                        ''active'' = Some (JInt (a + 1))
                   \<and> map_of (fst (get_subscriber_stats self before)) ''unverified'' = Some (JInt (u + 1))
                   \<and> map_of (fst (get_subscriber_stats (snd (verify_subscriber self token now)) after))
                        ''unverified'' = Some (JInt u)))"
proof -
  from assms have "\<exists>x \<in> set (subscribers self). verification_token (snd x) = token" by blast
  from first_match_split [OF this] obtain pre k s post where
    split: "subscribers self = pre @ (k, s) # post" and
    pre: "\<forall>y \<in> set pre. verification_token (snd y) \<noteq> token" and
    hit: "verification_token s = token" by blast
  let ?s' = "s\<lparr>verified := True, status := ''active'', last_updated := now\<rparr>"
  let ?self' = "self\<lparr>subscribers := pre @ (k, ?s') # post\<rparr>"
  have res: "verify_subscriber self token now =
               (([(''message'', ''Email verified successfully'')], 200), save_subscribers ?self')"
    by (rule verify_subscriber_split [OF split pre hit])
  have saved: "writable (storage_file self) \<longrightarrow>
      content (storage_file (snd (verify_subscriber self token now))) =
        Some (Json (JObj (dump_items (pre @ (k, ?s') # post) [])))"
    using content_save [of ?self'] by (simp add: res)
  have stats: "status s = ''pending'' \<and> \<not> verified s \<longrightarrow>
      (\<exists>a u. map_of (fst (get_subscriber_stats self before)) ''active'' = Some (JInt a)
           \<and> map_of (fst (get_subscriber_stats (snd (verify_subscriber self token now)) after))
                ''active'' = Some (JInt (a + 1))
           \<and> map_of (fst (get_subscriber_stats self before)) ''unverified'' = Some (JInt (u + 1))
           \<and> map_of (fst (get_subscriber_stats (snd (verify_subscriber self token now)) after))
                ''unverified'' = Some (JInt u))"
  proof
    assume p: "status s = ''pending'' \<and> \<not> verified s"
    let ?a = "int (length (filter (\<lambda>x. status (snd x) = ''active'') (pre @ post)))"
    let ?u = "int (length (filter (\<lambda>x. \<not> verified (snd x)) (pre @ post)))"
    have "map_of (fst (get_subscriber_stats self before)) ''active'' = Some (JInt ?a)"
      using p by (simp add: stats_active split)
    moreover have "map_of (fst (get_subscriber_stats (snd (verify_subscriber self token now)) after))
                ''active'' = Some (JInt (?a + 1))"
      by (simp add: stats_active res)
    moreover have "map_of (fst (get_subscriber_stats self before)) ''unverified'' = Some (JInt (?u + 1))"
      using p by (simp add: stats_unverified split)
    moreover have "map_of (fst (get_subscriber_stats (snd (verify_subscriber self token now)) after))
                ''unverified'' = Some (JInt ?u)"
      by (simp add: stats_unverified res)
    ultimately show "\<exists>a u. map_of (fst (get_subscriber_stats self before)) ''active'' = Some (JInt a)
           \<and> map_of (fst (get_subscriber_stats (snd (verify_subscriber self token now)) after))
                ''active'' = Some (JInt (a + 1))
           \<and> map_of (fst (get_subscriber_stats self before)) ''unverified'' = Some (JInt (u + 1))
           \<and> map_of (fst (get_subscriber_stats (snd (verify_subscriber self token now)) after))
                ''unverified'' = Some (JInt u)" by blast
  qed
  from split pre hit res saved stats show ?thesis by blast
qed

theorem verify_subscriber_matching_token_witness:
  "fst (verify_subscriber two_subscribers ''tok-1'' ''2024-02-01T00:00:00'') =
     ([(''message'', ''Email verified successfully'')], 200)
   \<and> map snd (subscribers (snd (verify_subscriber two_subscribers ''tok-1'' ''2024-02-01T00:00:00'')))
       = [ann\<lparr>verified := True, status := ''active'', last_updated := ''2024-02-01T00:00:00''\<rparr>, bob]
   \<and> fst (get_subscriber_stats two_subscribers ''2024-02-01T00:00:00'') =
       [(''total'', JInt 2), (''active'', JInt 0), (''unverified'', JInt 2),
        (''last_updated'', JStr ''2024-02-01T00:00:00'')]
   \<and> fst (get_subscriber_stats
            (snd (verify_subscriber two_subscribers ''tok-1'' ''2024-02-01T00:00:00''))
            ''2024-02-01T00:00:01'') =
       [(''total'', JInt 2), (''active'', JInt 1), (''unverified'', JInt 1),
        (''last_updated'', JStr ''2024-02-01T00:00:01'')]"
proof -
  have m: "(''ann@example.com'', ann) \<in> set (subscribers two_subscribers)"
    by (simp add: two_subscribers_def)
  have t: "verification_token (snd (''ann@example.com'', ann)) = ''tok-1''"
    by (simp add: ann_def)
  from verify_subscriber_matching_token
    [OF m t, of "''2024-02-01T00:00:00''" "''2024-02-01T00:00:00''" "''2024-02-01T00:00:01''"]
  obtain st where "verify_subscriber two_subscribers ''tok-1'' ''2024-02-01T00:00:00'' =
     (([(''message'', ''Email verified successfully'')], 200), st)"
    by (elim exE conjE) (rule that)
  then have r: "fst (verify_subscriber two_subscribers ''tok-1'' ''2024-02-01T00:00:00'') =
     ([(''message'', ''Email verified successfully'')], 200)"
    by simp
  have d: "subscribers (snd (verify_subscriber two_subscribers ''tok-1'' ''2024-02-01T00:00:00''))
       = [(''ann@example.com'',
           ann\<lparr>verified := True, status := ''active'', last_updated := ''2024-02-01T00:00:00''\<rparr>),
          (''bob@example.com'', bob)]"
    by (simp add: verify_subscriber_def two_subscribers_def ann_def)
  show ?thesis
    using r by (simp add: d get_subscriber_stats_def Let_def) (simp add: two_subscribers_def ann_def bob_def)
qed

text \<open>
  Claim C5, as stated, fails: the second call reads the clock again and stores the new
  reading in \<^verbatim>\<open>last_updated\<close> (line 95), so the matched record after the second call
  differs from the record after the first call whenever the two readings differ.
\<close>

theorem verify_subscriber_twice_counterexample:
  "hd (subscribers (snd (verify_subscriber
          (snd (verify_subscriber two_subscribers ''tok-1'' ''2024-02-01T00:00:00''))
          ''tok-1'' ''2024-02-02T00:00:00'')))
   \<noteq> hd (subscribers (snd (verify_subscriber two_subscribers ''tok-1'' ''2024-02-01T00:00:00'')))"
  by (simp add: verify_subscriber_def two_subscribers_def ann_def)

text \<open>
  Claim C5, amended. When some record carries the token, two calls of
  \<^verbatim>\<open>verify_subscriber\<close> in succession both answer with status 200. After the second
  call the matched record is the record left by the first call with \<^verbatim>\<open>last_updated\<close>
  replaced by the second clock reading, every other record is as the first call left
  it, \<^verbatim>\<open>save_subscribers\<close> runs again, and the counts \<^verbatim>\<open>total\<close>, \<^verbatim>\<open>active\<close> and
  \<^verbatim>\<open>unverified\<close> of the stats report are the same after both calls. When the two
  readings are equal, the index after the second call equals the index after the first.
\<close>

theorem verify_subscriber_twice:
  assumes "x \<in> set (subscribers self)" and "verification_token (snd x) = token"
  shows "\<exists>pre k s post.
           subscribers (snd (verify_subscriber self token now1)) = pre @ (k, s) # post
         \<and> (\<forall>y \<in> set pre. verification_token (snd y) \<noteq> token)
         \<and> verification_token s = token
         \<and> fst (verify_subscriber self token now1) =
             ([(''message'', ''Email verified successfully'')], 200)
         \<and> verify_subscriber (snd (verify_subscriber self token now1)) token now2 =
             (([(''message'', ''Email verified successfully'')], 200),
              save_subscribers ((snd (verify_subscriber self token now1))
                \<lparr>subscribers := pre @ (k, s\<lparr>last_updated := now2\<rparr>) # post\<rparr>))
         \<and> (now2 = now1 \<longrightarrow>
              subscribers (snd (verify_subscriber (snd (verify_subscriber self token now1))
                                  token now2))
              = subscribers (snd (verify_subscriber self token now1)))
         \<and> take 3 (fst (get_subscriber_stats
                (snd (verify_subscriber (snd (verify_subscriber self token now1)) token now2))
                after))
           = take 3 (fst (get_subscriber_stats (snd (verify_subscriber self token now1)) before))"
proof -
  from assms have "\<exists>x \<in> set (subscribers self). verification_token (snd x) = token" by blast
  from first_match_split [OF this] obtain pre k s0 post where
    split: "subscribers self = pre @ (k, s0) # post" and
    pre: "\<forall>y \<in> set pre. verification_token (snd y) \<noteq> token" and
    hit: "verification_token s0 = token" by blast
  let ?s = "s0\<lparr>verified := True, status := ''active'', last_updated := now1\<rparr>"
  let ?st1 = "save_subscribers (self\<lparr>subscribers := pre @ (k, ?s) # post\<rparr>)"
  have res1: "verify_subscriber self token now1 =
               (([(''message'', ''Email verified successfully'')], 200), ?st1)"
    by (rule verify_subscriber_split [OF split pre hit])
  have split1: "subscribers ?st1 = pre @ (k, ?s) # post" by simp
  have hit1: "verification_token ?s = token" using hit by simp
  have again: "?s\<lparr>verified := True, status := ''active'', last_updated := now2\<rparr>
                 = ?s\<lparr>last_updated := now2\<rparr>" by simp
  have res2: "verify_subscriber ?st1 token now2 =
               (([(''message'', ''Email verified successfully'')], 200),
                save_subscribers (?st1\<lparr>subscribers := pre @ (k, ?s\<lparr>last_updated := now2\<rparr>) # post\<rparr>))"
    using verify_subscriber_split [OF split1 pre hit1, of now2] by (simp only: again)
  have idx2: "subscribers (snd (verify_subscriber ?st1 token now2)) =
                pre @ (k, ?s\<lparr>last_updated := now2\<rparr>) # post"
    by (simp add: res2)
  have same: "now2 = now1 \<longrightarrow> subscribers (snd (verify_subscriber ?st1 token now2)) = subscribers ?st1"
    unfolding idx2 by simp
  have stats: "take 3 (fst (get_subscriber_stats (snd (verify_subscriber ?st1 token now2)) after))
           = take 3 (fst (get_subscriber_stats ?st1 before))"
    by (simp add: res2 get_subscriber_stats_def Let_def)
  have "subscribers (snd (verify_subscriber self token now1)) = pre @ (k, ?s) # post
      \<and> (\<forall>y \<in> set pre. verification_token (snd y) \<noteq> token)
      \<and> verification_token ?s = token
      \<and> fst (verify_subscriber self token now1) =
             ([(''message'', ''Email verified successfully'')], 200)
      \<and> verify_subscriber (snd (verify_subscriber self token now1)) token now2 =
             (([(''message'', ''Email verified successfully'')], 200),
              save_subscribers ((snd (verify_subscriber self token now1))
                \<lparr>subscribers := pre @ (k, ?s\<lparr>last_updated := now2\<rparr>) # post\<rparr>))
      \<and> (now2 = now1 \<longrightarrow>
              subscribers (snd (verify_subscriber (snd (verify_subscriber self token now1))
                                  token now2))
              = subscribers (snd (verify_subscriber self token now1)))
      \<and> take 3 (fst (get_subscriber_stats
                (snd (verify_subscriber (snd (verify_subscriber self token now1)) token now2))
                after))
           = take 3 (fst (get_subscriber_stats (snd (verify_subscriber self token now1)) before))"
    unfolding res1 snd_conv fst_conv using pre hit1 res2 same stats split1 by (intro conjI) (assumption | rule refl)+
  then show ?thesis by blast
qed

theorem verify_subscriber_twice_witness:
  "fst (verify_subscriber
          (snd (verify_subscriber two_subscribers ''tok-1'' ''2024-02-01T00:00:00''))
          ''tok-1'' ''2024-02-02T00:00:00'') =
     ([(''message'', ''Email verified successfully'')], 200)
   \<and> map snd (subscribers (snd (verify_subscriber
          (snd (verify_subscriber two_subscribers ''tok-1'' ''2024-02-01T00:00:00''))
          ''tok-1'' ''2024-02-02T00:00:00'')))
     = [ann\<lparr>verified := True, status := ''active'', last_updated := ''2024-02-02T00:00:00''\<rparr>, bob]"
proof -
  have m: "(''ann@example.com'', ann) \<in> set (subscribers two_subscribers)"
    by (simp add: two_subscribers_def)
  have t: "verification_token (snd (''ann@example.com'', ann)) = ''tok-1''"
    by (simp add: ann_def)
  from verify_subscriber_twice
    [OF m t, of "''2024-02-01T00:00:00''" "''2024-02-02T00:00:00''" "''a''" "''b''"]
  obtain st where "verify_subscriber
          (snd (verify_subscriber two_subscribers ''tok-1'' ''2024-02-01T00:00:00''))
          ''tok-1'' ''2024-02-02T00:00:00'' =
     (([(''message'', ''Email verified successfully'')], 200), st)"
    by (elim exE conjE) (rule that)
  then have r: "fst (verify_subscriber
          (snd (verify_subscriber two_subscribers ''tok-1'' ''2024-02-01T00:00:00''))
          ''tok-1'' ''2024-02-02T00:00:00'') =
     ([(''message'', ''Email verified successfully'')], 200)"
    by simp
  show ?thesis
    using r by (simp add: verify_subscriber_def two_subscribers_def ann_def)
qed

subsection \<open>Registration\<close>

lemma add_subscriber_invalid:
  "validate_email E email0 = Inl e \<Longrightarrow>
   add_subscriber E self email0 metadata0 now1 now2 now3 = (([(''error'', e)], 400), self)"
  by (simp add: add_subscriber_def)

lemma add_subscriber_existing_key:
  "validate_email E email0 = Inr email1 \<Longrightarrow> lower E email1 \<in> set (keys (subscribers self)) \<Longrightarrow>
   add_subscriber E self email0 metadata0 now1 now2 now3 =
     (([(''error'', ''Email already exists'')], 409), self)"
  by (simp add: add_subscriber_def)

lemma add_subscriber_new_key:
  assumes "validate_email E email0 = Inr email1"
      and "lower E email1 \<notin> set (keys (subscribers self))"
  shows "add_subscriber E self email0 metadata0 now1 now2 now3 =
           (([(''message'', ''Subscriber added successfully'')], 201),
            save_subscribers (self\<lparr>subscribers := subscribers self @
              [(lower E email1,
                \<lparr>email = lower E email1, joined_date = now2, status = ''pending'',
                 verification_token = sha256_hexdigest E (email1 @ now1), verified = False,
                 last_updated = now3,
                 metadata = (case metadata0 of None \<Rightarrow> [] | Some m \<Rightarrow> m)\<rparr>)]\<rparr>))"
proof -
  have md: "(case metadata0 of None \<Rightarrow> [] | Some m \<Rightarrow> if m = [] then [] else m) =
            (case metadata0 of None \<Rightarrow> [] | Some m \<Rightarrow> m)"
    by (simp split: option.split)
  show ?thesis
    using assms by (simp add: add_subscriber_def Let_def setitem_fresh md)
qed

lemma ascii_lower_example [simp]: "ascii_lower ''A@Example.com'' = ''a@example.com''"
  by code_simp

lemma ascii_lower_example2 [simp]: "ascii_lower ''a@example.com'' = ''a@example.com''"
  by code_simp

lemma ascii_lower_example3 [simp]: "ascii_lower ''ann@example.com'' = ''ann@example.com''"
  by code_simp

text \<open>
  Claim C1, as stated, fails in one point: \<^verbatim>\<open>joined_date\<close> and \<^verbatim>\<open>last_updated\<close> are
  not one creation instant. Lines 78 and 82 read the clock separately, so the two fields
  differ whenever the clock moves between the two readings.
\<close>

theorem add_subscriber_timestamps_counterexample:
  "joined_date (snd (last (subscribers (snd (add_subscriber demo_env empty_manager
      ''ann@example.com'' None
      ''2024-01-01T09:00:00.000001'' ''2024-01-01T09:00:00.000002''
      ''2024-01-01T09:00:00.000003'')))))
   \<noteq> last_updated (snd (last (subscribers (snd (add_subscriber demo_env empty_manager
      ''ann@example.com'' None
      ''2024-01-01T09:00:00.000001'' ''2024-01-01T09:00:00.000002''
      ''2024-01-01T09:00:00.000003'')))))"
  by (simp add: add_subscriber_def demo_env_def empty_manager_def keys_def Let_def)

text \<open>
  Claim C1, amended. When the validator accepts the address and the lower-cased
  normalised address is no key of the index, \<^verbatim>\<open>add_subscriber\<close> answers
  \<^verbatim>\<open>{"message": "Subscriber added successfully"}\<close> with status 201 and appends exactly
  one record under the lower-cased key: \<^verbatim>\<open>status = "pending"\<close>, \<^verbatim>\<open>verified = False\<close>,
  the supplied metadata (the empty dict when none is given), and \<^verbatim>\<open>joined_date\<close> and
  \<^verbatim>\<open>last_updated\<close> each a reading of the clock taken during the call (the second and
  the third of the call). Then \<^verbatim>\<open>save_subscribers\<close> runs once: the journal grows by
  one event, and a writable file holds the whole new index.
\<close>

theorem add_subscriber_fresh:
  assumes "validate_email E email0 = Inr email1"
      and "lower E email1 \<notin> set (keys (subscribers self))"
  shows "fst (add_subscriber E self email0 metadata0 now1 now2 now3) =
           ([(''message'', ''Subscriber added successfully'')], 201)
       \<and> subscribers (snd (add_subscriber E self email0 metadata0 now1 now2 now3)) =
           subscribers self @
             [(lower E email1,
               \<lparr>email = lower E email1, joined_date = now2, status = ''pending'',
                verification_token = sha256_hexdigest E (email1 @ now1), verified = False,
                last_updated = now3,
                metadata = (case metadata0 of None \<Rightarrow> [] | Some m \<Rightarrow> m)\<rparr>)]
       \<and> length (journal (snd (add_subscriber E self email0 metadata0 now1 now2 now3))) =
           length (journal self) + 1
       \<and> (writable (storage_file self) \<longrightarrow>
            journal (snd (add_subscriber E self email0 metadata0 now1 now2 now3)) =
              journal self @ [Wrote (JObj (dump_items
                (subscribers (snd (add_subscriber E self email0 metadata0 now1 now2 now3))) []))]
          \<and> content (storage_file (snd (add_subscriber E self email0 metadata0 now1 now2 now3))) =
              Some (Json (JObj (dump_items
                (subscribers (snd (add_subscriber E self email0 metadata0 now1 now2 now3))) []))))"
  unfolding add_subscriber_new_key [OF assms] fst_conv snd_conv
  by (simp add: journal_save content_save)

theorem add_subscriber_fresh_witness:
  "fst (add_subscriber demo_env empty_manager ''ann@example.com'' None
      ''2024-01-01T09:00:00.000001'' ''2024-01-01T09:00:00.000002''
      ''2024-01-01T09:00:00.000003'') =
     ([(''message'', ''Subscriber added successfully'')], 201)
   \<and> subscribers (snd (add_subscriber demo_env empty_manager ''ann@example.com'' None
      ''2024-01-01T09:00:00.000001'' ''2024-01-01T09:00:00.000002''
      ''2024-01-01T09:00:00.000003'')) =
         [(''ann@example.com'',
           \<lparr>email = ''ann@example.com'', joined_date = ''2024-01-01T09:00:00.000002'',
            status = ''pending'',
            verification_token = ''sha256:ann@example.com2024-01-01T09:00:00.000001'',
            verified = False, last_updated = ''2024-01-01T09:00:00.000003'', metadata = []\<rparr>)]
   \<and> content (storage_file (snd (add_subscriber demo_env empty_manager ''ann@example.com'' None
      ''2024-01-01T09:00:00.000001'' ''2024-01-01T09:00:00.000002''
      ''2024-01-01T09:00:00.000003''))) =
       Some (Json (JObj
         [(''ann@example.com'', JObj
            [(''email'', JStr ''ann@example.com''),
             (''joined_date'', JStr ''2024-01-01T09:00:00.000002''),
             (''status'', JStr ''pending''),
             (''verification_token'', JStr ''sha256:ann@example.com2024-01-01T09:00:00.000001''),
             (''verified'', JBool False),
             (''last_updated'', JStr ''2024-01-01T09:00:00.000003''),
             (''metadata'', JObj [])])]))"
proof -
  let ?r = "add_subscriber demo_env empty_manager ''ann@example.com'' None
      ''2024-01-01T09:00:00.000001'' ''2024-01-01T09:00:00.000002''
      ''2024-01-01T09:00:00.000003''"
  have v: "validate_email demo_env ''ann@example.com'' = Inr ''ann@example.com''"
    by (simp add: demo_env_def)
  have f: "lower demo_env ''ann@example.com'' \<notin> set (keys (subscribers empty_manager))"
    by (simp add: empty_manager_def keys_def)
  have w: "writable (storage_file empty_manager)"
    by (simp add: empty_manager_def disk_ok_def)
  note t = add_subscriber_fresh [OF v f, of None "''2024-01-01T09:00:00.000001''"
      "''2024-01-01T09:00:00.000002''" "''2024-01-01T09:00:00.000003''"]
  have l: "lower demo_env ''ann@example.com'' = ''ann@example.com''"
    by (simp add: demo_env_def)
  have h: "sha256_hexdigest demo_env ''ann@example.com2024-01-01T09:00:00.000001''
             = ''sha256:ann@example.com2024-01-01T09:00:00.000001''"
    by (simp add: demo_env_def)
  have r1: "fst ?r = ([(''message'', ''Subscriber added successfully'')], 201)"
    using t by simp
  have r2: "subscribers (snd ?r) =
         [(''ann@example.com'',
           \<lparr>email = ''ann@example.com'', joined_date = ''2024-01-01T09:00:00.000002'',
            status = ''pending'',
            verification_token = ''sha256:ann@example.com2024-01-01T09:00:00.000001'',
            verified = False, last_updated = ''2024-01-01T09:00:00.000003'', metadata = []\<rparr>)]"
    using t by (simp add: l h empty_manager_def)
  have r4: "content (storage_file (snd ?r)) =
              Some (Json (JObj (dump_items (subscribers (snd ?r)) [])))"
    using t w by simp
  show ?thesis
    unfolding r4 unfolding r1 r2 by (simp add: asdict_def)
qed

lemma count_key_distinct:
  "distinct (keys d) \<Longrightarrow> k \<in> set (keys d) \<Longrightarrow> length (filter (\<lambda>x. fst x = k) d) = 1"
proof (induction d)
  case Nil
  then show ?case by (simp add: keys_def)
next
  case (Cons a d)
  show ?case
  proof (cases "fst a = k")
    case True
    with Cons.prems have "k \<notin> fst ` set d" by (simp add: keys_def)
    then have "filter (\<lambda>x. fst x = k) d = []" by (auto simp: filter_empty_conv)
    with True show ?thesis by simp
  next
    case False
    with Cons show ?thesis by (simp add: keys_def)
  qed
qed

text \<open>
  Claim C2. Let a first call register an address that the validator accepts and whose
  lower-cased normalised form is new to the index. A second call with any accepted
  address that lower-cases to the same key answers \<^verbatim>\<open>{"error": "Email already exists"}\<close>
  with status 409 (the spec's DuplicateError) and returns the manager as the first call
  left it. The key stored by the first call is the lower-cased form, and after the second
  call the index holds exactly one record under it. (Lemma \<open>add_subscriber_existing_key\<close>
  gives the same answer for a key that is in the index for any other reason.)
\<close>

theorem add_subscriber_duplicate:
  assumes v1: "validate_email E e1 = Inr n1"
      and fresh: "lower E n1 \<notin> set (keys (subscribers self))"
      and dist: "distinct (keys (subscribers self))"
      and v2: "validate_email E e2 = Inr n2"
      and same: "lower E n2 = lower E n1"
  shows "add_subscriber E (snd (add_subscriber E self e1 m1 a1 a2 a3)) e2 m2 b1 b2 b3 =
           (([(''error'', ''Email already exists'')], 409),
            snd (add_subscriber E self e1 m1 a1 a2 a3))
       \<and> keys (subscribers (snd (add_subscriber E self e1 m1 a1 a2 a3))) =
           keys (subscribers self) @ [lower E n1]
       \<and> length (filter (\<lambda>x. fst x = lower E n1)
            (subscribers (snd (add_subscriber E (snd (add_subscriber E self e1 m1 a1 a2 a3))
                                 e2 m2 b1 b2 b3)))) = 1"
proof -
  let ?st1 = "snd (add_subscriber E self e1 m1 a1 a2 a3)"
  have ks: "keys (subscribers ?st1) = keys (subscribers self) @ [lower E n1]"
    by (simp add: add_subscriber_new_key [OF v1 fresh] keys_def)
  have present: "lower E n2 \<in> set (keys (subscribers ?st1))"
    by (simp add: ks same)
  have dup: "add_subscriber E ?st1 e2 m2 b1 b2 b3 =
               (([(''error'', ''Email already exists'')], 409), ?st1)"
    by (rule add_subscriber_existing_key [OF v2 present])
  have d1: "distinct (keys (subscribers ?st1))"
    using dist fresh by (simp add: ks)
  have one: "length (filter (\<lambda>x. fst x = lower E n1) (subscribers ?st1)) = 1"
    by (rule count_key_distinct [OF d1]) (simp add: ks)
  show ?thesis
    using ks one by (simp add: dup)
qed

theorem add_subscriber_duplicate_witness:
  "add_subscriber demo_env
      (snd (add_subscriber demo_env empty_manager ''A@Example.com'' None
              ''2024-01-01T09:00:00.000001'' ''2024-01-01T09:00:00.000002''
              ''2024-01-01T09:00:00.000003''))
      ''a@example.com'' None
      ''2024-01-01T09:05:00.000001'' ''2024-01-01T09:05:00.000002''
      ''2024-01-01T09:05:00.000003'' =
     (([(''error'', ''Email already exists'')], 409),
      snd (add_subscriber demo_env empty_manager ''A@Example.com'' None
              ''2024-01-01T09:00:00.000001'' ''2024-01-01T09:00:00.000002''
              ''2024-01-01T09:00:00.000003''))
   \<and> keys (subscribers (snd (add_subscriber demo_env empty_manager ''A@Example.com'' None
              ''2024-01-01T09:00:00.000001'' ''2024-01-01T09:00:00.000002''
              ''2024-01-01T09:00:00.000003''))) = [''a@example.com'']"
proof -
  have v1: "validate_email demo_env ''A@Example.com'' = Inr ''A@Example.com''"
    by (simp add: demo_env_def)
  have l1: "lower demo_env ''A@Example.com'' = ''a@example.com''"
    by (simp add: demo_env_def)
  have fresh: "lower demo_env ''A@Example.com'' \<notin> set (keys (subscribers empty_manager))"
    by (simp add: empty_manager_def keys_def)
  have dist: "distinct (keys (subscribers empty_manager))"
    by (simp add: empty_manager_def keys_def)
  have v2: "validate_email demo_env ''a@example.com'' = Inr ''a@example.com''"
    by (simp add: demo_env_def)
  have same: "lower demo_env ''a@example.com'' = lower demo_env ''A@Example.com''"
    by (simp add: demo_env_def)
  have e: "keys (subscribers empty_manager) = []"
    by (simp add: empty_manager_def keys_def)
  from add_subscriber_duplicate [OF v1 fresh dist v2 same, of None
      "''2024-01-01T09:00:00.000001''" "''2024-01-01T09:00:00.000002''"
      "''2024-01-01T09:00:00.000003''" None
      "''2024-01-01T09:05:00.000001''" "''2024-01-01T09:05:00.000002''"
      "''2024-01-01T09:05:00.000003''"]
  show ?thesis by (simp add: l1 e)
qed

subsection \<open>Statistics\<close>

text \<open>
  Claim C6, as stated, fails in one point: the report has no field named
  \<^verbatim>\<open>generated_at\<close>. The clock reading is returned under the key \<^verbatim>\<open>last_updated\<close>
  (line 108).
\<close>

theorem get_subscriber_stats_generated_at_counterexample:
  "map_of (fst (get_subscriber_stats empty_manager ''2024-03-01T12:00:00'')) ''generated_at''
     = None
   \<and> map fst (fst (get_subscriber_stats empty_manager ''2024-03-01T12:00:00''))
     = [''total'', ''active'', ''unverified'', ''last_updated'']"
  by (simp add: get_subscriber_stats_def Let_def)

text \<open>
  Claim C6, amended. The report of \<^verbatim>\<open>get_subscriber_stats\<close> has four fields:
  \<^verbatim>\<open>total\<close>, the number of records of the index; \<^verbatim>\<open>active\<close>, the number of records
  with \<^verbatim>\<open>status == "active"\<close>; \<^verbatim>\<open>unverified\<close>, the number of records with
  \<^verbatim>\<open>verified\<close> false; and the clock reading of the call under the key
  \<^verbatim>\<open>last_updated\<close>. The manager (index, file and journal) is returned as it was, and on
  an empty index the three counts are 0.
\<close>

theorem get_subscriber_stats_report:
  "get_subscriber_stats self now =
     ([(''total'', JInt (int (length (subscribers self)))),
       (''active'', JInt (int (length (filter (\<lambda>x. status (snd x) = ''active'')
                                         (subscribers self))))),
       (''unverified'', JInt (int (length (filter (\<lambda>x. \<not> verified (snd x))
                                             (subscribers self))))),
       (''last_updated'', JStr now)], self)
   \<and> get_subscriber_stats (self\<lparr>subscribers := []\<rparr>) now =
     ([(''total'', JInt 0), (''active'', JInt 0), (''unverified'', JInt 0),
       (''last_updated'', JStr now)], self\<lparr>subscribers := []\<rparr>)"
  by (simp add: get_subscriber_stats_def Let_def sum_list_ones filter_map comp_def)

subsection \<open>Save and load\<close>




text \<open>
  Claim C8. A manager constructed on an absent file has the empty index and nothing is
  logged (\<^verbatim>\<open>load_subscribers\<close>, which only the constructor calls, returns without
  touching the index that the constructor has just set to the empty dict). When the file
  exists and reading it raises (it cannot be opened, its text is not JSON, the document
  is not an object, or a record does not have exactly the seven fields), the exception is
  logged once and the index is the empty dict.
\<close>

theorem load_subscribers_absent_or_corrupt:
  "(content f = None \<longrightarrow>
      SubscriberManager_init f = Some \<lparr>subscribers = [], storage_file = f, journal = []\<rparr>)
   \<and> (content (storage_file self) = None \<longrightarrow> load_subscribers self = Some self)
   \<and> (content (storage_file self) = Some c \<longrightarrow> read_file (storage_file self) c = Raised e \<longrightarrow>
        load_subscribers self =
          Some (self\<lparr>subscribers := [],
                     journal := journal self @ [LogError ''Error loading subscribers: '' e]\<rparr>))
   \<and> (\<not> readable f \<longrightarrow> read_file f c = Raised OSError)
   \<and> (readable f \<longrightarrow> read_file f Invalid_json = Raised JSONDecodeError)
   \<and> (readable f \<longrightarrow> (\<forall>items. j \<noteq> JObj items) \<longrightarrow> read_file f (Json j) = Raised AttributeError)
   \<and> (readable f \<longrightarrow> set (keys kw) \<noteq> set field_names \<longrightarrow>
        read_file f (Json (JObj [(k, JObj kw)])) = Raised TypeError)"
proof (intro conjI impI)
  assume "content f = None"
  then show "SubscriberManager_init f = Some \<lparr>subscribers = [], storage_file = f, journal = []\<rparr>"
    by (simp add: SubscriberManager_init_def load_subscribers_def)
next
  assume "content (storage_file self) = None"
  then show "load_subscribers self = Some self"
    by (simp add: load_subscribers_def)
next
  assume "content (storage_file self) = Some c" "read_file (storage_file self) c = Raised e"
  then show "load_subscribers self =
          Some (self\<lparr>subscribers := [],
                     journal := journal self @ [LogError ''Error loading subscribers: '' e]\<rparr>)"
    by (simp add: load_subscribers_def)
next
  assume "\<not> readable f"
  then show "read_file f c = Raised OSError"
    by (simp add: read_file_def)
next
  assume "readable f"
  then show "read_file f Invalid_json = Raised JSONDecodeError"
    by (simp add: read_file_def)
next
  assume "readable f" "\<forall>items. j \<noteq> JObj items"
  then show "read_file f (Json j) = Raised AttributeError"
    by (cases j) (simp_all add: read_file_def)
next
  assume r: "readable f" and k: "set (keys kw) \<noteq> set field_names"
  have n: "(list_all (\<lambda>k. k \<in> set field_names) (keys kw)
           \<and> list_all (\<lambda>f. f \<in> set (keys kw)) field_names) = False"
    using k by (auto simp: list_all_iff)
  have "Subscriber_init (JObj kw) = Raised TypeError"
    by (simp only: Subscriber_init_def json.case n if_False)
  then show "read_file f (Json (JObj [(k, JObj kw)])) = Raised TypeError"
    using r by (simp add: read_file_def)
qed

theorem load_subscribers_absent_or_corrupt_witness:
  "SubscriberManager_init \<lparr>content = None, readable = True, writable = True\<rparr> =
     Some \<lparr>subscribers = [],
           storage_file = \<lparr>content = None, readable = True, writable = True\<rparr>, journal = []\<rparr>
   \<and> load_subscribers
       (two_subscribers\<lparr>storage_file :=
          \<lparr>content = Some Invalid_json, readable = True, writable = True\<rparr>\<rparr>) =
     Some \<lparr>subscribers = [],
           storage_file = \<lparr>content = Some Invalid_json, readable = True, writable = True\<rparr>,
           journal = [LogError ''Error loading subscribers: '' JSONDecodeError]\<rparr>"
proof -
  let ?f = "\<lparr>content = Some Invalid_json, readable = True, writable = True\<rparr>"
  let ?g = "\<lparr>content = None, readable = True, writable = True\<rparr>"
  let ?self = "two_subscribers\<lparr>storage_file := ?f\<rparr>"
  note t = load_subscribers_absent_or_corrupt
    [of ?f ?self Invalid_json JSONDecodeError JNull "[]" "''k''"]
  have a: "SubscriberManager_init ?g = Some \<lparr>subscribers = [], storage_file = ?g, journal = []\<rparr>"
    using load_subscribers_absent_or_corrupt
      [of ?g ?self Invalid_json JSONDecodeError JNull "[]" "''k''"] by simp
  have rd: "read_file (storage_file ?self) Invalid_json = Raised JSONDecodeError"
    using t by simp
  have b: "load_subscribers ?self =
      Some (?self\<lparr>subscribers := [],
                   journal := journal ?self @ [LogError ''Error loading subscribers: '' JSONDecodeError]\<rparr>)"
    using t rd by simp
  show ?thesis
    unfolding a b by (simp add: two_subscribers_def)
qed

subsection \<open>The lifecycle invariant\<close>

lemma verify_scan_lifecycle:
  "verify_scan d token now = Some d' \<Longrightarrow> lifecycle_invariant d \<Longrightarrow> lifecycle_invariant d'"
proof (induction d arbitrary: d')
  case Nil
  then show ?case by simp
next
  case (Cons a d)
  obtain k s where a: "a = (k, s)" by (cases a)
  show ?case
  proof (cases "verification_token s = token")
    case True
    with Cons.prems show ?thesis
      by (auto simp: a lifecycle_invariant_def lifecycle_ok_def)
  next
    case False
    with Cons.prems obtain r where r: "verify_scan d token now = Some r" and d': "d' = (k, s) # r"
      by (auto simp: a)
    from Cons.prems(2) have "lifecycle_invariant d" "lifecycle_ok s"
      by (simp_all add: a lifecycle_invariant_def)
    with Cons.IH [OF r] show ?thesis
      by (simp add: d' lifecycle_invariant_def)
  qed
qed

lemma verify_subscriber_lifecycle:
  "lifecycle_invariant (subscribers self) \<Longrightarrow>
   lifecycle_invariant (subscribers (snd (verify_subscriber self token now)))"
  by (cases "verify_scan (subscribers self) token now")
     (simp_all add: verify_subscriber_def verify_scan_lifecycle)

lemma add_subscriber_lifecycle:
  assumes "lifecycle_invariant (subscribers self)"
  shows "lifecycle_invariant
           (subscribers (snd (add_subscriber E self email0 metadata0 now1 now2 now3)))"
proof (cases "validate_email E email0")
  case (Inl e)
  with assms show ?thesis by (simp add: add_subscriber_invalid)
next
  case (Inr email1)
  show ?thesis
  proof (cases "lower E email1 \<in> set (keys (subscribers self))")
    case True
    with assms show ?thesis by (simp add: add_subscriber_existing_key [OF Inr])
  next
    case False
    with assms show ?thesis
      by (simp add: add_subscriber_new_key [OF Inr False] lifecycle_invariant_def lifecycle_ok_def)
  qed
qed

lemma run_lifecycle:
  "lifecycle_invariant (subscribers self) \<Longrightarrow> lifecycle_invariant (subscribers (run E self cs))"
proof (induction cs arbitrary: self)
  case Nil
  then show ?case by simp
next
  case (Cons c cs)
  have "lifecycle_invariant (subscribers (apply_call E self c))"
    using Cons.prems
    by (cases c) (simp_all add: add_subscriber_lifecycle verify_subscriber_lifecycle)
  from Cons.IH [OF this] show ?case by simp
qed

text \<open>
  Claim C9. Start from a manager with the empty index and make any sequence of calls of
  \<^verbatim>\<open>add_subscriber\<close> and \<^verbatim>\<open>verify_subscriber\<close>, with any arguments and any clock
  readings. In the index reached, every record with \<^verbatim>\<open>verified\<close> true has
  \<^verbatim>\<open>status == "active"\<close> and every record with \<^verbatim>\<open>status == "pending"\<close> has
  \<^verbatim>\<open>verified\<close> false.
\<close>

theorem reachable_lifecycle_invariant:
  assumes "subscribers self = []"
  shows "\<forall>x \<in> set (subscribers (run E self cs)).
           (verified (snd x) \<longrightarrow> status (snd x) = ''active'')
         \<and> (status (snd x) = ''pending'' \<longrightarrow> \<not> verified (snd x))"
proof -
  from assms have "lifecycle_invariant (subscribers self)"
    by (simp add: lifecycle_invariant_def)
  then have "lifecycle_invariant (subscribers (run E self cs))"
    by (rule run_lifecycle)
  then show ?thesis
    by (simp add: lifecycle_invariant_def lifecycle_ok_def list_all_iff)
qed

theorem reachable_lifecycle_invariant_witness:
  "lifecycle_invariant (subscribers (run demo_env empty_manager
      [Register ''ann@example.com'' None ''2024-01-01T09:00:00.000001''
         ''2024-01-01T09:00:00.000002'' ''2024-01-01T09:00:00.000003'',
       Register ''bob@example.com'' None ''2024-01-02T09:00:00.000001''
         ''2024-01-02T09:00:00.000002'' ''2024-01-02T09:00:00.000003'',
       Verify ''sha256:ann@example.com2024-01-01T09:00:00.000001'' ''2024-01-03T10:00:00'']))
   \<and> map (\<lambda>x. (fst x, status (snd x), verified (snd x)))
        (subscribers (run demo_env empty_manager
      [Register ''ann@example.com'' None ''2024-01-01T09:00:00.000001''
         ''2024-01-01T09:00:00.000002'' ''2024-01-01T09:00:00.000003'',
       Register ''bob@example.com'' None ''2024-01-02T09:00:00.000001''
         ''2024-01-02T09:00:00.000002'' ''2024-01-02T09:00:00.000003'',
       Verify ''sha256:ann@example.com2024-01-01T09:00:00.000001'' ''2024-01-03T10:00:00'']))
     = [(''ann@example.com'', ''active'', True), (''bob@example.com'', ''pending'', False)]"
proof -
  have e: "subscribers empty_manager = []"
    by (simp add: empty_manager_def)
  have lb: "ascii_lower ''bob@example.com'' = ''bob@example.com''"
    by code_simp
  have inv: "lifecycle_invariant (subscribers (run demo_env empty_manager
      [Register ''ann@example.com'' None ''2024-01-01T09:00:00.000001''
         ''2024-01-01T09:00:00.000002'' ''2024-01-01T09:00:00.000003'',
       Register ''bob@example.com'' None ''2024-01-02T09:00:00.000001''
         ''2024-01-02T09:00:00.000002'' ''2024-01-02T09:00:00.000003'',
       Verify ''sha256:ann@example.com2024-01-01T09:00:00.000001'' ''2024-01-03T10:00:00'']))"
    using reachable_lifecycle_invariant [OF e]
    by (simp only: lifecycle_invariant_def lifecycle_ok_def list_all_iff)
  have idx: "map (\<lambda>x. (fst x, status (snd x), verified (snd x)))
        (subscribers (run demo_env empty_manager
      [Register ''ann@example.com'' None ''2024-01-01T09:00:00.000001''
         ''2024-01-01T09:00:00.000002'' ''2024-01-01T09:00:00.000003'',
       Register ''bob@example.com'' None ''2024-01-02T09:00:00.000001''
         ''2024-01-02T09:00:00.000002'' ''2024-01-02T09:00:00.000003'',
       Verify ''sha256:ann@example.com2024-01-01T09:00:00.000001'' ''2024-01-03T10:00:00'']))
     = [(''ann@example.com'', ''active'', True), (''bob@example.com'', ''pending'', False)]"
    by (simp add: add_subscriber_def verify_subscriber_def demo_env_def empty_manager_def
        keys_def Let_def lb)
  from inv idx show ?thesis by (rule conjI)
qed

end
